theory Spec2Isabelle
  imports Complex_Main "HOL-Library.Multiset"
begin

section \<open>The blog content loader (src/lib/blog.ts)\<close>

text \<open>
  The loader is two exported functions, \<^verbatim>\<open>getBlogPosts\<close> and \<^verbatim>\<open>getBlogPost\<close>, over
  Node's \<^verbatim>\<open>fs\<close> and \<^verbatim>\<open>path\<close> modules, the front-matter parser \<^verbatim>\<open>gray-matter\<close>, the
  \<^verbatim>\<open>reading-time\<close> estimator and the built-in \<^verbatim>\<open>Date\<close> and \<^verbatim>\<open>Array.prototype.sort\<close>.
  Its text is the last listing of \<^verbatim>\<open>src/unnamed/part_002\<close> (lines 773 to 844), the version
  with the guard for a missing directory and with \<^verbatim>\<open>tags\<close>.

  The file system, \<^verbatim>\<open>path.join\<close>, the two third-party libraries and the parsing of date
  strings are not part of the repository: they are the fields of an environment record
  that every function of the model takes as its first argument. Each is a function of its
  arguments, as on a file system that does not change during a call. An exception is a
  value \<open>Inl e\<close> of the result type.
\<close>

subsection \<open>JavaScript values\<close>

text \<open>
  A number is NaN, an infinity (\<open>True\<close> for the positive one) or a finite value; the two
  zeros are not told apart, since the loader only tests numbers for truthiness.
\<close>

datatype jsnum = NaN | Infinite bool | Finite rat

text \<open>
  The values a YAML header can hold: scalars, timestamps (\<open>JDate\<close>, milliseconds since
  the epoch), sequences and mappings. An object is a map from property names to values.
\<close>

datatype jsval =
    JUndefined
  | JNull
  | JBool bool
  | JNum jsnum
  | JStr string
  | JDate int
  | JArr "jsval list"
  | JObj "string \<Rightarrow> jsval option"

type_synonym object = "string \<Rightarrow> jsval option"

text \<open>Reading a property \<^verbatim>\<open>o.k\<close>: an absent property reads as \<^verbatim>\<open>undefined\<close>.\<close>

definition getProp :: "object \<Rightarrow> string \<Rightarrow> jsval" where
  "getProp obj k = (case obj k of None \<Rightarrow> JUndefined | Some v \<Rightarrow> v)"

text \<open>ToBoolean: \<^verbatim>\<open>undefined\<close>, \<^verbatim>\<open>null\<close>, \<^verbatim>\<open>false\<close>, zero, NaN and the empty string are falsy.\<close>

fun truthy :: "jsval \<Rightarrow> bool" where
  "truthy JUndefined = False"
| "truthy JNull = False"
| "truthy (JBool b) = b"
| "truthy (JNum n) = (n \<noteq> NaN \<and> n \<noteq> Finite 0)"
| "truthy (JStr s) = (s \<noteq> [])"
| "truthy (JDate t) = True"
| "truthy (JArr xs) = True"
| "truthy (JObj m) = True"

text \<open>The operator \<^verbatim>\<open>a || b\<close>.\<close>

definition or_js :: "jsval \<Rightarrow> jsval \<Rightarrow> jsval" where
  "or_js a b = (if truthy a then a else b)"

subsection \<open>Errors and the environment\<close>

datatype error = ENOENT | ENOTDIR | EACCES | EISDIR | YAMLException | TypeError

text \<open>
  \<open>matter\<close> returns the pair \<^verbatim>\<open>{ data, content }\<close> that the loader destructures; its declared
  type makes \<^verbatim>\<open>data\<close> an object (\<^verbatim>\<open>{ [key: string]: any }\<close>). \<open>readingTime_text\<close> is
  \<^verbatim>\<open>readingTime(content).text\<close>. \<open>Date_parse\<close> is the time value of \<^verbatim>\<open>new Date(v)\<close> for a
  string, array or object \<open>v\<close> (the value is converted to a string and parsed;
  \<open>None\<close> is NaN).
\<close>

record env =
  process_cwd :: string
  path_join :: "string \<Rightarrow> string \<Rightarrow> string"
  fs_existsSync :: "string \<Rightarrow> bool"
  fs_readdirSync :: "string \<Rightarrow> error + string list"
  fs_readFileSync :: "string \<Rightarrow> error + string"
  matter :: "string \<Rightarrow> error + (object \<times> string)"
  readingTime_text :: "string \<Rightarrow> string"
  Date_parse :: "jsval \<Rightarrow> int option"

subsection \<open>Strings\<close>

text \<open>\<^verbatim>\<open>s.endsWith(t)\<close>: the last \<open>length t\<close> characters of \<open>s\<close> are \<open>t\<close>.\<close>

definition endsWith :: "string \<Rightarrow> string \<Rightarrow> bool" where
  "endsWith s t = (length t \<le> length s \<and> drop (length s - length t) s = t)"

text \<open>
  \<^verbatim>\<open>file.replace(/\.mdx$/, '')\<close>: without the \<^verbatim>\<open>m\<close> flag \<^verbatim>\<open>$\<close> matches at the end of the
  string only, so the one possible match is a final \<^verbatim>\<open>.mdx\<close>.
\<close>

definition replace_mdx :: "string \<Rightarrow> string" where
  "replace_mdx file = (if endsWith file ''.mdx'' then take (length file - 4) file else file)"

subsection \<open>Dates and sorting\<close>

text \<open>TimeClip: a finite number within 8.64e15 of zero, truncated towards zero.\<close>

definition TimeClip :: "jsnum \<Rightarrow> int option" where
  "TimeClip n =
     (case n of
        NaN \<Rightarrow> None
      | Infinite s \<Rightarrow> None
      | Finite q \<Rightarrow>
          if abs q > 8640000000000000 then None
          else Some (if 0 \<le> q then floor q else ceiling q))"

text \<open>
  ToPrimitive throws a TypeError for an object that has no callable \<^verbatim>\<open>valueOf\<close> or
  \<^verbatim>\<open>toString\<close> returning a primitive. A header value is never callable, so an object with
  an own property \<^verbatim>\<open>toString\<close> hides \<^verbatim>\<open>Object.prototype.toString\<close> and cannot be
  converted, whatever its \<^verbatim>\<open>valueOf\<close> (own: not callable; inherited: returns the object).
  An array is converted by joining the strings of its elements, so it cannot be
  converted when an element cannot. Every other value converts.
\<close>

fun toPrimitive_throws :: "jsval \<Rightarrow> bool" where
  "toPrimitive_throws (JObj m) = (m ''toString'' \<noteq> None)"
| "toPrimitive_throws (JArr xs) = list_ex toPrimitive_throws xs"
| "toPrimitive_throws v = False"

text \<open>
  The time value of \<^verbatim>\<open>new Date(v)\<close> for a value that converts, \<open>None\<close> for NaN. A Date
  argument gives its own time value; \<^verbatim>\<open>undefined\<close>, \<^verbatim>\<open>null\<close>, booleans and numbers go
  through ToNumber and TimeClip; strings, and arrays and objects through their strings, are
  parsed.
\<close>

fun timeValue :: "env \<Rightarrow> jsval \<Rightarrow> int option" where
  "timeValue E JUndefined = None"
| "timeValue E JNull = Some 0"
| "timeValue E (JBool b) = Some (if b then 1 else 0)"
| "timeValue E (JNum n) = TimeClip n"
| "timeValue E (JDate t) = Some t"
| "timeValue E v = Date_parse E v"

text \<open>\<^verbatim>\<open>new Date(v).getTime()\<close>: the constructor throws when \<open>v\<close> cannot be converted.\<close>

definition newDate_getTime :: "env \<Rightarrow> jsval \<Rightarrow> error + int option" where
  "newDate_getTime E v = (if toPrimitive_throws v then Inl TypeError else Inr (timeValue E v))"

text \<open>Subtraction of two numbers that are integers or NaN.\<close>

definition minus_js :: "int option \<Rightarrow> int option \<Rightarrow> int option" where
  "minus_js x y = (case (x, y) of (Some a, Some b) \<Rightarrow> Some (a - b) | _ \<Rightarrow> None)"

text \<open>
  The comparator \<^verbatim>\<open>(a, b) => new Date(b.date).getTime() - new Date(a.date).getTime()\<close>; the
  left operand of the subtraction is evaluated first.
\<close>

definition byDate :: "env \<Rightarrow> object \<Rightarrow> object \<Rightarrow> error + int option" where
  "byDate E a b =
     (case newDate_getTime E (getProp b ''date'') of
        Inl e \<Rightarrow> Inl e
      | Inr tb \<Rightarrow>
          (case newDate_getTime E (getProp a ''date'') of
             Inl e \<Rightarrow> Inl e
           | Inr ta \<Rightarrow> Inr (minus_js tb ta)))"

text \<open>
  \<^verbatim>\<open>Array.prototype.sort(comparefn)\<close>. SortCompare reads a NaN from the comparator as
  \<open>0\<close>, and an exception of the comparator ends the sort. The sort is stable; it is
  modelled by insertion from the right, which keeps \<open>x\<close> in front of every later \<open>y\<close>
  that the comparator does not put before it. An array of fewer than two elements is
  returned without a call of the comparator; in a longer one every element is an argument
  of some call, here as in any sort by comparison.

  With a consistent comparator every stable sort returns the same list. With an
  inconsistent one (here: when a date is NaN) the language leaves the order to the
  implementation, and on such a list the model need not return the order that the sort of
  Node returns. Only the first example of C1 below reads the order of such a list;
  Node leaves that list as it is, as the model does.
\<close>

definition SortCompare :: "('a \<Rightarrow> 'a \<Rightarrow> error + int option) \<Rightarrow> 'a \<Rightarrow> 'a \<Rightarrow> error + int" where
  "SortCompare comparefn x y =
     (case comparefn x y of Inl e \<Rightarrow> Inl e | Inr None \<Rightarrow> Inr 0 | Inr (Some v) \<Rightarrow> Inr v)"

fun insert_sorted :: "('a \<Rightarrow> 'a \<Rightarrow> error + int option) \<Rightarrow> 'a \<Rightarrow> 'a list \<Rightarrow> error + 'a list" where
  "insert_sorted comparefn x [] = Inr [x]"
| "insert_sorted comparefn x (y # ys) =
     (case SortCompare comparefn x y of
        Inl e \<Rightarrow> Inl e
      | Inr v \<Rightarrow>
          if v \<le> 0 then Inr (x # y # ys)
          else (case insert_sorted comparefn x ys of Inl e \<Rightarrow> Inl e | Inr zs \<Rightarrow> Inr (y # zs)))"

fun Array_sort :: "('a \<Rightarrow> 'a \<Rightarrow> error + int option) \<Rightarrow> 'a list \<Rightarrow> error + 'a list" where
  "Array_sort comparefn [] = Inr []"
| "Array_sort comparefn (x # xs) =
     (case Array_sort comparefn xs of
        Inl e \<Rightarrow> Inl e
      | Inr ys \<Rightarrow> insert_sorted comparefn x ys)"

subsection \<open>The loader\<close>

text \<open>\<^verbatim>\<open>const contentDirectory = path.join(process.cwd(), 'src/content/blog')\<close>\<close>

definition contentDirectory :: "env \<Rightarrow> string" where
  "contentDirectory E = path_join E (process_cwd E) ''src/content/blog''"

text \<open>
  The object literal that both functions return. Its properties are set from left to
  right, so the spread \<^verbatim>\<open>...data\<close>, which comes last, overwrites any property of the same
  name that precedes it.
\<close>

definition blogPost :: "string \<Rightarrow> object \<Rightarrow> string \<Rightarrow> string \<Rightarrow> object" where
  "blogPost slug data content readingTimeText =
     [''slug'' \<mapsto> JStr slug,
      ''title'' \<mapsto> getProp data ''title'',
      ''date'' \<mapsto> getProp data ''date'',
      ''excerpt'' \<mapsto> or_js (getProp data ''excerpt'') (JStr []),
      ''tags'' \<mapsto> or_js (getProp data ''tags'') (JArr []),
      ''readingTime'' \<mapsto> JStr readingTimeText,
      ''content'' \<mapsto> JStr content] ++ data"

text \<open>The callback of \<^verbatim>\<open>.map\<close> in \<^verbatim>\<open>getBlogPosts\<close>: one file name to one post.\<close>

definition loadFile :: "env \<Rightarrow> string \<Rightarrow> error + object" where
  "loadFile E file =
     (let filePath = path_join E (contentDirectory E) file in
      case fs_readFileSync E filePath of
        Inl e \<Rightarrow> Inl e
      | Inr fileContents \<Rightarrow>
          (case matter E fileContents of
             Inl e \<Rightarrow> Inl e
           | Inr (data, content) \<Rightarrow>
               (let slug = replace_mdx file;
                    readingTimeResult = readingTime_text E content
                in Inr (blogPost slug data content readingTimeResult))))"

text \<open>\<^verbatim>\<open>Array.prototype.map\<close> with a callback that may throw: the first exception ends it.\<close>

fun map_throwing :: "('a \<Rightarrow> error + 'b) \<Rightarrow> 'a list \<Rightarrow> error + 'b list" where
  "map_throwing f [] = Inr []"
| "map_throwing f (x # xs) =
     (case f x of
        Inl e \<Rightarrow> Inl e
      | Inr y \<Rightarrow> (case map_throwing f xs of Inl e \<Rightarrow> Inl e | Inr ys \<Rightarrow> Inr (y # ys)))"

definition getBlogPosts :: "env \<Rightarrow> error + object list" where
  "getBlogPosts E =
     (if \<not> fs_existsSync E (contentDirectory E) then Inr []
      else
        case fs_readdirSync E (contentDirectory E) of
          Inl e \<Rightarrow> Inl e
        | Inr files \<Rightarrow>
            (case map_throwing (loadFile E) (filter (\<lambda>file. endsWith file ''.mdx'') files) of
               Inl e \<Rightarrow> Inl e
             | Inr posts \<Rightarrow> Array_sort (byDate E) posts))"

text \<open>The body of the \<^verbatim>\<open>try\<close> block of \<^verbatim>\<open>getBlogPost\<close>.\<close>

definition getBlogPost_try :: "env \<Rightarrow> string \<Rightarrow> error + object" where
  "getBlogPost_try E slug =
     (let filePath = path_join E (contentDirectory E) (slug @ ''.mdx'') in
      case fs_readFileSync E filePath of
        Inl e \<Rightarrow> Inl e
      | Inr fileContents \<Rightarrow>
          (case matter E fileContents of
             Inl e \<Rightarrow> Inl e
           | Inr (data, content) \<Rightarrow>
               (let readingTimeResult = readingTime_text E content
                in Inr (blogPost slug data content readingTimeResult))))"

text \<open>\<^verbatim>\<open>catch (error) { return null }\<close>: \<open>None\<close> is \<^verbatim>\<open>null\<close>.\<close>

definition getBlogPost :: "env \<Rightarrow> string \<Rightarrow> object option" where
  "getBlogPost E slug = (case getBlogPost_try E slug of Inl error \<Rightarrow> None | Inr post \<Rightarrow> Some post)"

subsection \<open>Ordering of a result\<close>

text \<open>
  \<open>date_ge E a b\<close> is \<^verbatim>\<open>a.date >= b.date\<close> on the time values that the comparator
  computes; as in JavaScript, a comparison with NaN is false.
\<close>

definition date_ge :: "env \<Rightarrow> object \<Rightarrow> object \<Rightarrow> bool" where
  "date_ge E a b =
     (case (newDate_getTime E (getProp a ''date''), newDate_getTime E (getProp b ''date'')) of
        (Inr (Some ta), Inr (Some tb)) \<Rightarrow> tb \<le> ta
      | _ \<Rightarrow> False)"

text \<open>Every adjacent pair of the list is in descending order of date.\<close>

fun descendingByDate :: "env \<Rightarrow> object list \<Rightarrow> bool" where
  "descendingByDate E (a # b # posts) = (date_ge E a b \<and> descendingByDate E (b # posts))"
| "descendingByDate E posts = True"

text \<open>A post is dated when its date converts and the time value is not NaN.\<close>

definition dated :: "env \<Rightarrow> object \<Rightarrow> bool" where
  "dated E post =
     (case newDate_getTime E (getProp post ''date'') of Inr (Some t) \<Rightarrow> True | _ \<Rightarrow> False)"

text \<open>The key of a stable sort in ascending order that puts the latest date first.\<close>

definition descending_key :: "env \<Rightarrow> object \<Rightarrow> int" where
  "descending_key E post =
     (case newDate_getTime E (getProp post ''date'') of Inr (Some t) \<Rightarrow> - t | _ \<Rightarrow> 0)"

text \<open>A path lies inside a directory when it starts with the directory and a separator.\<close>

definition inside :: "string \<Rightarrow> string \<Rightarrow> bool" where
  "inside dir p = (take (length dir + 1) p = dir @ ''/'')"

text \<open>A file name is listed when the content directory exists and its listing has the name.\<close>

definition listed :: "env \<Rightarrow> string \<Rightarrow> bool" where
  "listed E file =
     (fs_existsSync E (contentDirectory E) \<and>
      (case fs_readdirSync E (contentDirectory E) of
         Inl e \<Rightarrow> False
       | Inr files \<Rightarrow> file \<in> set files))"

subsection \<open>Front matter\<close>

text \<open>
  Modelled from the spec: the front-matter parser. The loader calls the package
  \<^verbatim>\<open>gray-matter\<close>, which is not part of the repository, and the round trip of a written
  file depends on what that parser does with the text of the file. The spec (sections 4.1
  and 6) has a content file as a structured header block of key/value metadata followed
  by free-form body text, split by the conventional front-matter delimiter syntax, with
  the recognised keys title, date, excerpt (strings) and tags (a list of strings). The
  definitions of this subsection read that syntax.
\<close>

text \<open>
  Modelled from the spec: the characters of a header value. The model keeps to the
  printable characters of ASCII, from the space (32) to the tilde (126).
\<close>

definition printable :: "char \<Rightarrow> bool" where
  "printable c = (32 \<le> (of_char c :: nat) \<and> (of_char c :: nat) \<le> 126)"

text \<open>
  Modelled from the spec: a double-quoted string, read from behind its opening quote to
  its closing quote; the result is the string and the text that follows. \<^verbatim>\<open>\"\<close> and \<^verbatim>\<open>\\\<close>
  stand for the quote (0x22) and the backslash (0x5C); no other escape is modelled.
\<close>

fun double_quoted :: "bool \<Rightarrow> string \<Rightarrow> (string \<times> string) option" where
  "double_quoted escape [] = None"
| "double_quoted True (c # cs) =
     (if c = CHR 0x22 \<or> c = CHR 0x5C
      then map_option (\<lambda>(v, rest). (c # v, rest)) (double_quoted False cs)
      else None)"
| "double_quoted False (c # cs) =
     (if c = CHR 0x22 then Some ([], cs)
      else if c = CHR 0x5C then double_quoted True cs
      else if printable c then map_option (\<lambda>(v, rest). (c # v, rest)) (double_quoted False cs)
      else None)"

text \<open>Modelled from the spec: a header value that is one double-quoted string.\<close>

definition string_value :: "string \<Rightarrow> jsval option" where
  "string_value s =
     (case s of
        [] \<Rightarrow> None
      | c # cs \<Rightarrow>
          if c = CHR 0x22
          then (case double_quoted False cs of
                  None \<Rightarrow> None
                | Some (v, rest) \<Rightarrow> if rest = [] then Some (JStr v) else None)
          else None)"

text \<open>
  Modelled from the spec: the items of a list of strings, read from behind the opening
  bracket: double-quoted strings, separated by a comma and a space, up to the closing
  bracket that ends the line.
\<close>

function sequence_items :: "string \<Rightarrow> jsval list option" where
  "sequence_items [] = None"
| "sequence_items (c # cs) =
     (if c = CHR 0x22
      then (case double_quoted False cs of
              None \<Rightarrow> None
            | Some (v, rest) \<Rightarrow>
                if rest = '']'' then Some [JStr v]
                else if take 2 rest = '', ''
                  then map_option ((#) (JStr v)) (sequence_items (drop 2 rest))
                else None)
      else None)"
  by pat_completeness auto
termination
proof (relation "measure length")
  show "wf (measure length)"
    by simp
next
  fix c :: char and cs :: string and x2 :: "string \<times> string" and v rest :: string
  assume parsed: "double_quoted False cs = Some x2" "(v, rest) = x2"
  have shorter: "length r \<le> length s" if "double_quoted e s = Some (w, r)" for e s w r
    using that
    by (induction e s arbitrary: w rule: double_quoted.induct)
      (auto split: if_splits)
  from parsed have "length rest \<le> length cs"
    using shorter [of False cs v rest] by simp
  then show "(drop 2 rest, c # cs) \<in> measure length"
    by simp
qed

text \<open>Modelled from the spec: a header value that is a list of strings.\<close>

definition sequence_value :: "string \<Rightarrow> jsval option" where
  "sequence_value s =
     (if s = ''[]'' then Some (JArr [])
      else case s of
             [] \<Rightarrow> None
           | c # cs \<Rightarrow> if c = CHR ''['' then map_option JArr (sequence_items cs) else None)"

text \<open>Modelled from the spec: a header value is a string or a list of strings.\<close>

definition header_value :: "string \<Rightarrow> jsval option" where
  "header_value s = (case string_value s of Some v \<Rightarrow> Some v | None \<Rightarrow> sequence_value s)"

text \<open>
  Modelled from the spec: a header key is a lower-case letter followed by lower-case
  letters, digits and underscores, as the recognised keys \<^verbatim>\<open>title\<close>, \<^verbatim>\<open>date\<close>, \<^verbatim>\<open>excerpt\<close>
  and \<^verbatim>\<open>tags\<close> are.
\<close>

definition lower_case :: "char \<Rightarrow> bool" where
  "lower_case c = (97 \<le> (of_char c :: nat) \<and> (of_char c :: nat) \<le> 122)"

text \<open>Modelled from the spec: a character of a header key behind its first.\<close>

definition key_char :: "char \<Rightarrow> bool" where
  "key_char c =
     (lower_case c \<or> (48 \<le> (of_char c :: nat) \<and> (of_char c :: nat) \<le> 57) \<or> c = CHR ''_'')"

text \<open>Modelled from the spec: the header keys.\<close>

definition header_key :: "string \<Rightarrow> bool" where
  "header_key k = (case k of [] \<Rightarrow> False | c # cs \<Rightarrow> lower_case c \<and> list_all key_char cs)"

text \<open>
  Modelled from the spec: a header line is a key, a colon, a space and a value.
\<close>

definition header_line :: "string \<Rightarrow> (string \<times> jsval) option" where
  "header_line l =
     (let k = takeWhile (\<lambda>c. c \<noteq> CHR '':'') l;
          r = dropWhile (\<lambda>c. c \<noteq> CHR '':'') l
      in if header_key k \<and> take 2 r = '': ''
         then map_option (Pair k) (header_value (drop 2 r))
         else None)"

text \<open>Modelled from the spec: the key/value pairs of the header lines, in their order.\<close>

fun header_lines :: "string list \<Rightarrow> (string \<times> jsval) list option" where
  "header_lines [] = Some []"
| "header_lines (l # ls) =
     (case header_line l of
        None \<Rightarrow> None
      | Some kv \<Rightarrow> map_option ((#) kv) (header_lines ls))"

text \<open>
  Modelled from the spec: the header block and the body. The text behind the opening
  delimiter is read line by line (the current line and the lines read are kept in
  reverse); the first line that is \<^verbatim>\<open>---\<close> closes the header, and the body is all the text
  behind the line break of that line, as it is.
\<close>

fun header_block :: "string \<Rightarrow> string list \<Rightarrow> string \<Rightarrow> (string list \<times> string) option" where
  "header_block line lines [] = (if rev line = ''---'' then Some (rev lines, []) else None)"
| "header_block line lines (c # cs) =
     (if c = CHR 0x0A
      then (if rev line = ''---'' then Some (rev lines, cs)
            else header_block [] (rev line # lines) cs)
      else header_block (c # line) lines cs)"

text \<open>Modelled from the spec: the object with the properties of the header, in their order.\<close>

definition object_of :: "(string \<times> jsval) list \<Rightarrow> object" where
  "object_of kvs = foldl (\<lambda>obj (k, v). obj(k \<mapsto> v)) Map.empty kvs"

text \<open>
  Modelled from the spec: the parse of a content file into header data and body. A text
  that does not begin with three dashes has no header and is all body. A text that
  begins with the line \<^verbatim>\<open>---\<close> is split at the closing delimiter, and its header lines are
  read into an object; its keys must differ. The result is \<open>None\<close> for every other text:
  the model says nothing about a text outside this syntax.
\<close>

definition front_matter :: "string \<Rightarrow> (object \<times> string) option" where
  "front_matter input =
     (if take 3 input \<noteq> ''---'' then Some (Map.empty, input)
      else if take 4 input \<noteq> ''---\<newline>'' then None
      else
        case header_block [] [] (drop 4 input) of
          None \<Rightarrow> None
        | Some (lines, body) \<Rightarrow>
            (case header_lines lines of
               None \<Rightarrow> None
             | Some kvs \<Rightarrow>
                 if distinct (map fst kvs) then Some (object_of kvs, body) else None))"







subsection \<open>A sample site\<close>

text \<open>
  \<^verbatim>\<open>path.join\<close> on POSIX for an absolute first argument and a second argument without a
  trailing separator, which is how the loader calls it: the two are joined by a
  separator and the result is normalised (empty and \<^verbatim>\<open>.\<close> segments dropped, \<^verbatim>\<open>..\<close>
  removing the segment before it).
\<close>

fun segments :: "string \<Rightarrow> string list" where
  "segments [] = [[]]"
| "segments (c # cs) =
     (if c = CHR ''/'' then [] # segments cs
      else (case segments cs of [] \<Rightarrow> [[c]] | s # ss \<Rightarrow> (c # s) # ss))"

fun normalizeSegments :: "string list \<Rightarrow> string list \<Rightarrow> string list" where
  "normalizeSegments res [] = rev res"
| "normalizeSegments res (s # ss) =
     (if s = [] \<or> s = ''.'' then normalizeSegments res ss
      else if s = ''..'' then normalizeSegments (drop 1 res) ss
      else normalizeSegments (s # res) ss)"

definition posix_join :: "string \<Rightarrow> string \<Rightarrow> string" where
  "posix_join a b =
     (case normalizeSegments [] (segments (a @ ''/'' @ b)) of
        [] \<Rightarrow> ''/''
      | ss \<Rightarrow> concat (map (\<lambda>s. ''/'' @ s) ss))"

text \<open>
  Six content files. \<open>hello_world_mdx\<close> has neither excerpt nor tags; \<open>typed_react_mdx\<close>
  has the four recognised keys; \<open>custom_mdx\<close> sets \<^verbatim>\<open>slug\<close> and a null excerpt;
  \<open>in_progress_mdx\<close> has no date; \<open>broken_mdx\<close> has an unterminated quoted scalar,
  which the YAML parser rejects.
\<close>

definition hello_world_mdx :: string where
  \<open>hello_world_mdx =
     ''---\<newline>title: "Hello"\<newline>date: "2025-01-01"\<newline>---\<newline>word word word''\<close>

definition typed_react_mdx :: string where
  \<open>typed_react_mdx =
     ''---\<newline>title: "Typed React"\<newline>date: "2025-04-15"\<newline>excerpt: "Types help."\<newline>tags: ["React", "TypeScript"]\<newline>---\<newline>Types catch errors early.''\<close>

definition custom_mdx :: string where
  \<open>custom_mdx =
     ''---\<newline>title: "Custom"\<newline>date: "2025-03-01"\<newline>slug: "pretty-url"\<newline>excerpt: null\<newline>---\<newline>A post with its own slug.''\<close>

definition in_progress_mdx :: string where
  \<open>in_progress_mdx = ''---\<newline>title: "Draft"\<newline>---\<newline>Not dated yet.''\<close>

definition broken_mdx :: string where
  \<open>broken_mdx = ''---\<newline>title: "Unclosed\<newline>---\<newline>Never parsed.''\<close>

text \<open>A post whose date is a mapping with the key \<^verbatim>\<open>toString\<close>, which does not convert.\<close>

definition odd_date_mdx :: string where
  \<open>odd_date_mdx =
     ''---\<newline>title: "Odd"\<newline>date: {toString: 1}\<newline>---\<newline>Dated by a mapping.''\<close>

text \<open>A file of the site that is not a blog post: it lies one level above the blog.\<close>

definition x_mdx :: string where
  \<open>x_mdx = ''---\<newline>title: "Internal"\<newline>---\<newline>Not a blog post.''\<close>

definition hello_world_data :: object where
  "hello_world_data = [''title'' \<mapsto> JStr ''Hello'', ''date'' \<mapsto> JStr ''2025-01-01'']"

definition typed_react_data :: object where
  "typed_react_data =
     [''title'' \<mapsto> JStr ''Typed React'', ''date'' \<mapsto> JStr ''2025-04-15'',
      ''excerpt'' \<mapsto> JStr ''Types help.'',
      ''tags'' \<mapsto> JArr [JStr ''React'', JStr ''TypeScript'']]"

definition custom_data :: object where
  "custom_data =
     [''title'' \<mapsto> JStr ''Custom'', ''date'' \<mapsto> JStr ''2025-03-01'',
      ''slug'' \<mapsto> JStr ''pretty-url'', ''excerpt'' \<mapsto> JNull]"

definition in_progress_data :: object where
  "in_progress_data = [''title'' \<mapsto> JStr ''Draft'']"

definition odd_date_data :: object where
  "odd_date_data =
     [''title'' \<mapsto> JStr ''Odd'', ''date'' \<mapsto> JObj [''toString'' \<mapsto> JNum (Finite 1)]]"

definition x_data :: object where
  "x_data = [''title'' \<mapsto> JStr ''Internal'']"

text \<open>The posts that the loader builds from these files.\<close>

definition hello_world_post :: object where
  "hello_world_post = blogPost ''hello-world'' hello_world_data ''word word word'' ''1 min read''"

definition typed_react_post :: object where
  "typed_react_post =
     blogPost ''typed-react'' typed_react_data ''Types catch errors early.'' ''1 min read''"

definition custom_post :: object where
  "custom_post = blogPost ''custom'' custom_data ''A post with its own slug.'' ''1 min read''"

definition in_progress_post :: object where
  "in_progress_post = blogPost ''in-progress'' in_progress_data ''Not dated yet.'' ''1 min read''"

definition odd_date_post :: object where
  "odd_date_post = blogPost ''odd-date'' odd_date_data ''Dated by a mapping.'' ''1 min read''"

text \<open>
  The values of \<^verbatim>\<open>matter\<close> at the sample files; a string with no front matter is all
  content.
\<close>

definition sample_matter :: "string \<Rightarrow> error + (object \<times> string)" where
  "sample_matter src =
     (if src = hello_world_mdx then Inr (hello_world_data, ''word word word'')
      else if src = typed_react_mdx then Inr (typed_react_data, ''Types catch errors early.'')
      else if src = custom_mdx then Inr (custom_data, ''A post with its own slug.'')
      else if src = in_progress_mdx then Inr (in_progress_data, ''Not dated yet.'')
      else if src = odd_date_mdx then Inr (odd_date_data, ''Dated by a mapping.'')
      else if src = x_mdx then Inr (x_data, ''Not a blog post.'')
      else if src = broken_mdx then Inl YAMLException
      else Inr (Map.empty, src))"

text \<open>Midnight UTC of the three dates used, in milliseconds; any other argument is NaN.\<close>

definition sample_Date_parse :: "jsval \<Rightarrow> int option" where
  "sample_Date_parse v =
     (case v of
        JStr s \<Rightarrow>
          if s = ''2025-01-01'' then Some 1735689600000
          else if s = ''2025-03-01'' then Some 1740787200000
          else if s = ''2025-04-15'' then Some 1744675200000
          else None
      | _ \<Rightarrow> None)"

text \<open>
  What the content directory holds under a name of its listing. \<^verbatim>\<open>drafts.mdx\<close> is a
  directory, which \<^verbatim>\<open>readFileSync\<close> refuses; \<^verbatim>\<open>notes.txt\<close> is a text file beside the
  posts; any other name is an empty file.
\<close>

definition sample_blog_file :: "string \<Rightarrow> error + string" where
  "sample_blog_file name =
     (if name = ''hello-world.mdx'' then Inr hello_world_mdx
      else if name = ''typed-react.mdx'' then Inr typed_react_mdx
      else if name = ''custom.mdx'' then Inr custom_mdx
      else if name = ''in-progress.mdx'' then Inr in_progress_mdx
      else if name = ''odd-date.mdx'' then Inr odd_date_mdx
      else if name = ''broken.mdx'' then Inr broken_mdx
      else if name = ''notes.txt'' then Inr ''to do''
      else if name = ''drafts.mdx'' then Inl EISDIR
      else Inr [])"

text \<open>
  The disk of a deployment under \<^verbatim>\<open>/app\<close>. The content directory is absent (\<open>None\<close>) or
  holds the entries of a listing; the file \<^verbatim>\<open>x.mdx\<close> lies beside it. A path in the content
  directory is its 22 characters \<^verbatim>\<open>/app/src/content/blog/\<close> followed by a listed name.
\<close>

definition sample_readFileSync :: "string list option \<Rightarrow> string \<Rightarrow> error + string" where
  "sample_readFileSync blog p =
     (if p \<in> set [''/'', ''/app'', ''/app/src'', ''/app/src/content''] then Inl EISDIR
      else if p = ''/app/src/content/x.mdx'' then Inr x_mdx
      else
        case blog of
          None \<Rightarrow> Inl ENOENT
        | Some listing \<Rightarrow>
            if p = ''/app/src/content/blog'' then Inl EISDIR
            else if take 22 p = ''/app/src/content/blog/'' \<and> drop 22 p \<in> set listing
              then sample_blog_file (drop 22 p)
            else Inl ENOENT)"

definition sample_readdirSync :: "string list option \<Rightarrow> string \<Rightarrow> error + string list" where
  "sample_readdirSync blog p =
     (if p = ''/'' then Inr [''app'']
      else if p = ''/app'' then Inr [''src'']
      else if p = ''/app/src'' then Inr [''content'']
      else if p = ''/app/src/content''
        then Inr (case blog of None \<Rightarrow> [''x.mdx''] | Some listing \<Rightarrow> [''blog'', ''x.mdx''])
      else if p = ''/app/src/content/blog''
        then (case blog of None \<Rightarrow> Inl ENOENT | Some listing \<Rightarrow> Inr listing)
      else
        case sample_readFileSync blog p of
          Inl ENOENT \<Rightarrow> Inl ENOENT
        | Inl EISDIR \<Rightarrow> Inr []
        | _ \<Rightarrow> Inl ENOTDIR)"

text \<open>
  The environment of the deployment. A path exists when reading it does not answer
  \<^verbatim>\<open>ENOENT\<close>. Every sample body is a few words long, which \<^verbatim>\<open>reading-time\<close> reports as one
  minute, and an empty body as none.
\<close>

definition deployment :: "string list option \<Rightarrow> env" where
  "deployment blog =
     \<lparr>process_cwd = ''/app'',
      path_join = posix_join,
      fs_existsSync = (\<lambda>p. sample_readFileSync blog p \<noteq> Inl ENOENT),
      fs_readdirSync = sample_readdirSync blog,
      fs_readFileSync = sample_readFileSync blog,
      matter = sample_matter,
      readingTime_text = (\<lambda>content. if content = [] then ''0 min read'' else ''1 min read''),
      Date_parse = sample_Date_parse\<rparr>"

text \<open>The site whose content directory has the given listing.\<close>

definition site :: "string list \<Rightarrow> env" where
  "site listing = deployment (Some listing)"

text \<open>The same site before its content directory is created.\<close>

definition site_without_blog :: env where
  "site_without_blog = deployment None"

section \<open>Properties of the model\<close>

subsection \<open>The sort\<close>

lemma mset_insert_sorted: "insert_sorted c x ys = Inr zs \<Longrightarrow> mset zs = add_mset x (mset ys)"
proof (induction ys arbitrary: zs)
  case Nil
  then show ?case by auto
next
  case (Cons y ys)
  then show ?case
    by (auto split: sum.splits if_splits)
qed

lemma mset_Array_sort: "Array_sort c xs = Inr ys \<Longrightarrow> mset ys = mset xs"
proof (induction xs arbitrary: ys)
  case Nil
  then show ?case by simp
next
  case (Cons x xs)
  then obtain zs where "Array_sort c xs = Inr zs" "insert_sorted c x zs = Inr ys"
    by (auto split: sum.splits)
  with Cons.IH show ?case
    by (simp add: mset_insert_sorted)
qed

lemma set_Array_sort: "Array_sort c xs = Inr ys \<Longrightarrow> set ys = set xs"
  by (metis mset_Array_sort set_mset_mset)

text \<open>An array of fewer than two elements is returned as it is.\<close>

lemma Array_sort_short: "length xs \<le> 1 \<Longrightarrow> Array_sort c xs = Inr xs"
  by (cases xs) simp_all

text \<open>The sort throws nothing but what the comparator throws, and that is a TypeError.\<close>

lemma byDate_error: "byDate E a b = Inl e \<Longrightarrow> e = TypeError"
  by (auto simp: byDate_def newDate_getTime_def split: sum.splits if_splits)

lemma insert_sorted_error: "insert_sorted (byDate E) x ys = Inl e \<Longrightarrow> e = TypeError"
proof (induction ys)
  case Nil
  then show ?case by simp
next
  case (Cons y ys)
  then show ?case
    by (auto simp: SortCompare_def dest: byDate_error split: sum.splits option.splits if_splits)
qed

lemma Array_sort_error: "Array_sort (byDate E) xs = Inl e \<Longrightarrow> e = TypeError"
proof (induction xs)
  case Nil
  then show ?case by simp
next
  case (Cons x xs)
  then show ?case
    by (auto dest: insert_sorted_error split: sum.splits)
qed

text \<open>When every date converts, the comparator does not throw and the sort returns.\<close>

lemma insert_sorted_returns:
  assumes "\<not> toPrimitive_throws (getProp x ''date'')"
    and "\<forall>y \<in> set ys. \<not> toPrimitive_throws (getProp y ''date'')"
  shows "\<exists>zs. insert_sorted (byDate E) x ys = Inr zs"
  using assms(2)
proof (induction ys)
  case Nil
  then show ?case by simp
next
  case (Cons y ys)
  then obtain zs where zs: "insert_sorted (byDate E) x ys = Inr zs"
    by auto
  have "\<exists>v. SortCompare (byDate E) x y = Inr v"
    using assms(1) Cons.prems
    by (simp add: SortCompare_def byDate_def newDate_getTime_def split: option.splits)
  with zs show ?case
    by auto
qed

lemma Array_sort_returns:
  "\<forall>x \<in> set xs. \<not> toPrimitive_throws (getProp x ''date'') \<Longrightarrow>
     \<exists>ys. Array_sort (byDate E) xs = Inr ys"
proof (induction xs)
  case Nil
  then show ?case by simp
next
  case (Cons x xs)
  then obtain ys where ys: "Array_sort (byDate E) xs = Inr ys"
    by auto
  then have "\<forall>y \<in> set ys. \<not> toPrimitive_throws (getProp y ''date'')"
    using Cons.prems by (simp add: set_Array_sort)
  then show ?case
    using ys Cons.prems insert_sorted_returns [of x ys E] by simp
qed

text \<open>
  In an array of two or more elements every element is compared, so one date that does
  not convert makes the sort throw.
\<close>

lemma insert_sorted_throws:
  assumes "toPrimitive_throws (getProp x ''date'') \<or> toPrimitive_throws (getProp y ''date'')"
  shows "insert_sorted (byDate E) x (y # ys) = Inl TypeError"
  using assms
  by (auto simp: SortCompare_def byDate_def newDate_getTime_def split: sum.splits)

lemma Array_sort_throws:
  assumes "x \<in> set xs" and "toPrimitive_throws (getProp x ''date'')" and "2 \<le> length xs"
  shows "Array_sort (byDate E) xs = Inl TypeError"
  using assms
proof (induction xs)
  case Nil
  then show ?case by simp
next
  case (Cons a xs)
  show ?case
  proof (cases "Array_sort (byDate E) xs")
    case (Inl e)
    then show ?thesis
      using Array_sort_error [of E xs e] by simp
  next
    case (Inr ys)
    then have m: "mset ys = mset xs"
      by (rule mset_Array_sort)
    from Cons.prems(3) have "xs \<noteq> []"
      by auto
    with m obtain y ys' where ys: "ys = y # ys'"
      by (cases ys) auto
    have "toPrimitive_throws (getProp a ''date'') \<or> toPrimitive_throws (getProp y ''date'')"
    proof (cases "x = a")
      case True
      with Cons.prems(2) show ?thesis by simp
    next
      case False
      with Cons.prems(1) have x: "x \<in> set xs"
        by simp
      have "\<not> 2 \<le> length xs"
        using Cons.IH [OF x Cons.prems(2)] Inr by auto
      then have "length ys = 1"
        using \<open>xs \<noteq> []\<close> m by (metis One_nat_def Suc_leI length_greater_0_conv
            less_2_cases_iff linorder_not_le nat_less_le size_mset)
      with ys have "ys = [y]"
        by simp
      with m x have "x = y"
        by (metis insert_iff list.set(1) list.simps(15) mset_eq_setD singletonD)
      with Cons.prems(2) show ?thesis by simp
    qed
    then have "insert_sorted (byDate E) a (y # ys') = Inl TypeError"
      by (rule insert_sorted_throws)
    then show ?thesis
      using Inr ys by (simp del: insert_sorted.simps)
  qed
qed

text \<open>
  On dated posts the comparator is the order \<open>date_ge\<close>, and the model of the sort is the
  stable sort \<open>sort_key\<close> by descending time. A stable sort is determined by its input
  and its order, so every implementation of \<^verbatim>\<open>Array.prototype.sort\<close> returns this list.
\<close>

lemma dated_time:
  "dated E x \<Longrightarrow> \<exists>t. newDate_getTime E (getProp x ''date'') = Inr (Some t)"
  by (auto simp: dated_def split: sum.splits option.splits)

lemma date_ge_key:
  "dated E x \<Longrightarrow> dated E y \<Longrightarrow> date_ge E x y = (descending_key E x \<le> descending_key E y)"
  by (auto simp: date_ge_def descending_key_def dest!: dated_time)

lemma SortCompare_byDate:
  assumes "dated E x" and "dated E y"
  shows "\<exists>v. SortCompare (byDate E) x y = Inr v
           \<and> (v \<le> 0) = (descending_key E x \<le> descending_key E y)"
proof -
  from assms obtain tx ty where
    "newDate_getTime E (getProp x ''date'') = Inr (Some tx)"
    "newDate_getTime E (getProp y ''date'') = Inr (Some ty)"
    by (auto dest!: dated_time)
  then show ?thesis
    by (simp add: SortCompare_def byDate_def minus_js_def descending_key_def)
qed

lemma insert_sorted_insort_key:
  "dated E x \<Longrightarrow> \<forall>y \<in> set ys. dated E y \<Longrightarrow>
     insert_sorted (byDate E) x ys = Inr (insort_key (descending_key E) x ys)"
proof (induction ys)
  case Nil
  then show ?case by simp
next
  case (Cons y ys)
  then obtain v where "SortCompare (byDate E) x y = Inr v"
    "(v \<le> 0) = (descending_key E x \<le> descending_key E y)"
    using SortCompare_byDate [of E x y] by auto
  with Cons show ?case
    by simp
qed

lemma Array_sort_sort_key:
  "\<forall>x \<in> set xs. dated E x \<Longrightarrow>
     Array_sort (byDate E) xs = Inr (sort_key (descending_key E) xs)"
proof (induction xs)
  case Nil
  then show ?case by simp
next
  case (Cons x xs)
  then have "Array_sort (byDate E) xs = Inr (sort_key (descending_key E) xs)"
    by simp
  moreover have "insert_sorted (byDate E) x (sort_key (descending_key E) xs)
      = Inr (insort_key (descending_key E) x (sort_key (descending_key E) xs))"
    using Cons.prems by (intro insert_sorted_insort_key) simp_all
  ultimately show ?case
    by (simp add: sort_key_def)
qed

lemma sorted_Array_sort:
  assumes "\<forall>x \<in> set xs. dated E x" and "Array_sort (byDate E) xs = Inr ys"
  shows "sorted_wrt (date_ge E) ys"
proof -
  have ys: "ys = sort_key (descending_key E) xs"
    using Array_sort_sort_key [OF assms(1)] assms(2) by simp
  then have "sorted (map (descending_key E) ys)"
    by simp
  then have "sorted_wrt (\<lambda>a b. descending_key E a \<le> descending_key E b) ys"
    by (simp add: sorted_map)
  moreover have "date_ge E a b"
    if "a \<in> set ys" "b \<in> set ys" "descending_key E a \<le> descending_key E b" for a b
    using that assms(1) ys by (simp add: date_ge_key)
  ultimately show ?thesis
    by (rule sorted_wrt_mono_rel [rotated])
qed

lemma sorted_wrt_descendingByDate: "sorted_wrt (date_ge E) posts \<Longrightarrow> descendingByDate E posts"
  by (induction E posts rule: descendingByDate.induct) simp_all

subsection \<open>The two functions\<close>

lemma getBlogPosts_cases:
  assumes "getBlogPosts E = Inr posts"
  shows "posts = [] \<or>
    (\<exists>files loaded. fs_readdirSync E (contentDirectory E) = Inr files \<and>
       map_throwing (loadFile E) (filter (\<lambda>file. endsWith file ''.mdx'') files) = Inr loaded \<and>
       Array_sort (byDate E) loaded = Inr posts)"
  using assms by (auto simp: getBlogPosts_def split: if_splits sum.splits)

lemma replace_mdx_append: "replace_mdx (slug @ ''.mdx'') = slug"
  by (simp add: replace_mdx_def endsWith_def)

text \<open>On the file \<open>slug @ ''.mdx''\<close> the callback of the listing is the body of the lookup.\<close>

lemma loadFile_getBlogPost_try: "loadFile E (slug @ ''.mdx'') = getBlogPost_try E slug"
  by (simp add: loadFile_def getBlogPost_try_def replace_mdx_append split: sum.splits prod.splits)

lemma getBlogPost_try_loaded:
  assumes "fs_readFileSync E (path_join E (contentDirectory E) (slug @ ''.mdx'')) = Inr src"
    and "matter E src = Inr (data, content)"
  shows "getBlogPost_try E slug = Inr (blogPost slug data content (readingTime_text E content))"
  using assms by (simp add: getBlogPost_try_def)

lemma endsWith_mdx_split:
  assumes "endsWith file ''.mdx''"
  shows "file = take (length file - 4) file @ ''.mdx''"
proof -
  from assms have "drop (length file - 4) file = ''.mdx''"
    by (simp add: endsWith_def eval_nat_numeral)
  then show ?thesis
    by (metis append_take_drop_id)
qed

lemma map_throwing_total:
  "\<forall>x \<in> set xs. \<exists>y. f x = Inr y \<Longrightarrow>
     \<exists>ys. map_throwing f xs = Inr ys \<and> list_all2 (\<lambda>x y. f x = Inr y) xs ys"
  by (induction xs) auto

lemma list_all2_right_member:
  "list_all2 P xs ys \<Longrightarrow> y \<in> set ys \<Longrightarrow> \<exists>x \<in> set xs. P x y"
  by (induction rule: list_all2_induct) auto

lemma map_throwing_member:
  "map_throwing f xs = Inr ys \<Longrightarrow> x \<in> set xs \<Longrightarrow> f x = Inr y \<Longrightarrow> y \<in> set ys"
  by (induction xs arbitrary: ys) (auto split: sum.splits)

lemma map_throwing_fails:
  "x \<in> set xs \<Longrightarrow> f x = Inl e \<Longrightarrow> \<exists>e'. map_throwing f xs = Inl e'"
proof (induction xs)
  case Nil
  then show ?case by simp
next
  case (Cons a xs)
  show ?case
  proof (cases "f a")
    case (Inl e0)
    then show ?thesis by simp
  next
    case (Inr y)
    with Cons.prems have "x \<in> set xs"
      by auto
    then obtain e' where "map_throwing f xs = Inl e'"
      using Cons by blast
    with Inr show ?thesis by simp
  qed
qed

text \<open>A listed file with the extension that fails to load makes the listing throw.\<close>

lemma getBlogPosts_throws:
  assumes "listed E file" and "endsWith file ''.mdx''" and "loadFile E file = Inl e"
  shows "\<exists>e'. getBlogPosts E = Inl e'"
proof -
  from assms(1) obtain files where files: "fs_existsSync E (contentDirectory E)"
    "fs_readdirSync E (contentDirectory E) = Inr files" "file \<in> set files"
    by (auto simp: listed_def split: sum.splits)
  have "file \<in> set (filter (\<lambda>file. endsWith file ''.mdx'') files)"
    using files(3) assms(2) by simp
  then have "\<exists>e'. map_throwing (loadFile E) (filter (\<lambda>file. endsWith file ''.mdx'') files) = Inl e'"
    using assms(3) by (rule map_throwing_fails)
  then show ?thesis
    using files(1,2) by (auto simp: getBlogPosts_def)
qed

text \<open>A listed file that loads is in every result of the listing.\<close>

lemma getBlogPosts_contains:
  assumes "getBlogPosts E = Inr posts" and "listed E file" and "endsWith file ''.mdx''"
    and "loadFile E file = Inr post"
  shows "post \<in> set posts"
proof -
  from assms(2) obtain files where files: "fs_existsSync E (contentDirectory E)"
    "fs_readdirSync E (contentDirectory E) = Inr files" "file \<in> set files"
    by (auto simp: listed_def split: sum.splits)
  with assms(1) obtain loaded where loaded:
    "map_throwing (loadFile E) (filter (\<lambda>file. endsWith file ''.mdx'') files) = Inr loaded"
    "Array_sort (byDate E) loaded = Inr posts"
    by (auto simp: getBlogPosts_def split: sum.splits)
  have "file \<in> set (filter (\<lambda>file. endsWith file ''.mdx'') files)"
    using files(3) assms(3) by simp
  with loaded(1) have "post \<in> set loaded"
    using assms(4) by (rule map_throwing_member)
  then show ?thesis
    by (simp add: set_Array_sort [OF loaded(2)])
qed

text \<open>
  A file that reads and parses gives the same post object to the listing callback and
  to the lookup by slug, and the listing returns it when the file is listed.
\<close>

lemma loaded_post:
  assumes "fs_readFileSync E (path_join E (contentDirectory E) (slug @ ''.mdx'')) = Inr src"
    and "matter E src = Inr (data, content)"
  shows "loadFile E (slug @ ''.mdx'') = Inr (blogPost slug data content (readingTime_text E content))"
    and "getBlogPost E slug = Some (blogPost slug data content (readingTime_text E content))"
    and "\<forall>posts. getBlogPosts E = Inr posts \<and> listed E (slug @ ''.mdx'')
           \<longrightarrow> blogPost slug data content (readingTime_text E content) \<in> set posts"
proof -
  show load: "loadFile E (slug @ ''.mdx'')
      = Inr (blogPost slug data content (readingTime_text E content))"
    using getBlogPost_try_loaded [OF assms] by (simp add: loadFile_getBlogPost_try)
  show "getBlogPost E slug = Some (blogPost slug data content (readingTime_text E content))"
    using getBlogPost_try_loaded [OF assms] by (simp add: getBlogPost_def)
  show "\<forall>posts. getBlogPosts E = Inr posts \<and> listed E (slug @ ''.mdx'')
           \<longrightarrow> blogPost slug data content (readingTime_text E content) \<in> set posts"
    using load getBlogPosts_contains [of E _ "slug @ ''.mdx''"]
    by (simp add: endsWith_def)
qed

subsection \<open>The post object\<close>

lemma blogPost_header: "data k = Some v \<Longrightarrow> blogPost slug data content rt k = Some v"
  by (simp add: blogPost_def)

lemma blogPost_in_dom: "k \<in> dom data \<Longrightarrow> blogPost slug data content rt k = data k"
  by (simp add: blogPost_def map_add_dom_app_simps)

lemma blogPost_derived:
  "data ''slug'' = None \<Longrightarrow> blogPost slug data content rt ''slug'' = Some (JStr slug)"
  "data ''content'' = None \<Longrightarrow> blogPost slug data content rt ''content'' = Some (JStr content)"
  "data ''excerpt'' = None \<Longrightarrow> blogPost slug data content rt ''excerpt'' = Some (JStr [])"
  "data ''tags'' = None \<Longrightarrow> blogPost slug data content rt ''tags'' = Some (JArr [])"
  by (simp_all add: blogPost_def map_add_def getProp_def or_js_def)

subsection \<open>The front-matter model\<close>


















subsection \<open>Evaluation of the sample site\<close>

lemma contentDirectory_site: "contentDirectory (site L) = ''/app/src/content/blog''"
  by (simp add: site_def deployment_def contentDirectory_def posix_join_def)

lemma contentDirectory_site_without_blog:
  "contentDirectory site_without_blog = ''/app/src/content/blog''"
  by (simp add: site_without_blog_def deployment_def contentDirectory_def posix_join_def)

lemma existsSync_site: "fs_existsSync (site L) ''/app/src/content/blog''"
  and readdirSync_site: "fs_readdirSync (site L) ''/app/src/content/blog'' = Inr L"
  and matter_site: "matter (site L) = sample_matter"
  and path_join_site: "path_join (site L) = posix_join"
  by (simp_all add: site_def deployment_def sample_readFileSync_def sample_readdirSync_def)

lemma readingTime_site: "c \<noteq> [] \<Longrightarrow> readingTime_text (site L) c = ''1 min read''"
  by (simp add: site_def deployment_def)

lemma sample_paths:
  "posix_join ''/app/src/content/blog'' ''missing.mdx'' = ''/app/src/content/blog/missing.mdx''"
  "posix_join ''/app/src/content/blog'' ''broken.mdx'' = ''/app/src/content/blog/broken.mdx''"
  "posix_join ''/app/src/content/blog'' ''drafts.mdx'' = ''/app/src/content/blog/drafts.mdx''"
  "posix_join ''/app/src/content/blog'' ''hello-world.mdx'' = ''/app/src/content/blog/hello-world.mdx''"
  "posix_join ''/app/src/content/blog'' ''typed-react.mdx'' = ''/app/src/content/blog/typed-react.mdx''"
  "posix_join ''/app/src/content/blog'' ''custom.mdx'' = ''/app/src/content/blog/custom.mdx''"
  "posix_join ''/app/src/content/blog'' ''in-progress.mdx'' = ''/app/src/content/blog/in-progress.mdx''"
  "posix_join ''/app/src/content/blog'' ''odd-date.mdx'' = ''/app/src/content/blog/odd-date.mdx''"
  "posix_join ''/app/src/content/blog'' ''../x.mdx'' = ''/app/src/content/x.mdx''"
  by (simp_all add: posix_join_def)

text \<open>Reading a file of the content directory gives what the listing holds under its name.\<close>

lemma sample_reads:
  "''missing.mdx'' \<notin> set L \<Longrightarrow>
     fs_readFileSync (site L) ''/app/src/content/blog/missing.mdx'' = Inl ENOENT"
  "''broken.mdx'' \<in> set L \<Longrightarrow>
     fs_readFileSync (site L) ''/app/src/content/blog/broken.mdx'' = Inr broken_mdx"
  "''drafts.mdx'' \<in> set L \<Longrightarrow>
     fs_readFileSync (site L) ''/app/src/content/blog/drafts.mdx'' = Inl EISDIR"
  "''hello-world.mdx'' \<in> set L \<Longrightarrow>
     fs_readFileSync (site L) ''/app/src/content/blog/hello-world.mdx'' = Inr hello_world_mdx"
  "''typed-react.mdx'' \<in> set L \<Longrightarrow>
     fs_readFileSync (site L) ''/app/src/content/blog/typed-react.mdx'' = Inr typed_react_mdx"
  "''custom.mdx'' \<in> set L \<Longrightarrow>
     fs_readFileSync (site L) ''/app/src/content/blog/custom.mdx'' = Inr custom_mdx"
  "''in-progress.mdx'' \<in> set L \<Longrightarrow>
     fs_readFileSync (site L) ''/app/src/content/blog/in-progress.mdx'' = Inr in_progress_mdx"
  "''odd-date.mdx'' \<in> set L \<Longrightarrow>
     fs_readFileSync (site L) ''/app/src/content/blog/odd-date.mdx'' = Inr odd_date_mdx"
  "fs_readFileSync (site L) ''/app/src/content/x.mdx'' = Inr x_mdx"
  by (simp_all add: site_def deployment_def sample_readFileSync_def sample_blog_file_def)

lemma sample_parses:
  "sample_matter broken_mdx = Inl YAMLException"
  "sample_matter hello_world_mdx = Inr (hello_world_data, ''word word word'')"
  "sample_matter typed_react_mdx = Inr (typed_react_data, ''Types catch errors early.'')"
  "sample_matter custom_mdx = Inr (custom_data, ''A post with its own slug.'')"
  "sample_matter in_progress_mdx = Inr (in_progress_data, ''Not dated yet.'')"
  "sample_matter odd_date_mdx = Inr (odd_date_data, ''Dated by a mapping.'')"
  "sample_matter x_mdx = Inr (x_data, ''Not a blog post.'')"
  by (simp_all add: sample_matter_def hello_world_mdx_def typed_react_mdx_def custom_mdx_def
      in_progress_mdx_def odd_date_mdx_def broken_mdx_def x_mdx_def)

lemmas site_eval = contentDirectory_site matter_site readingTime_site path_join_site
  sample_paths sample_reads sample_parses

lemma getBlogPosts_site:
  "getBlogPosts (site L) =
     (case map_throwing (loadFile (site L)) (filter (\<lambda>file. endsWith file ''.mdx'') L) of
        Inl e \<Rightarrow> Inl e
      | Inr posts \<Rightarrow> Array_sort (byDate (site L)) posts)"
  by (simp add: getBlogPosts_def contentDirectory_site existsSync_site readdirSync_site)

lemma listed_site: "listed (site L) file = (file \<in> set L)"
  by (simp add: listed_def contentDirectory_site existsSync_site readdirSync_site)

lemma sample_loads:
  "''hello-world.mdx'' \<in> set L \<Longrightarrow> loadFile (site L) ''hello-world.mdx'' = Inr hello_world_post"
  "''typed-react.mdx'' \<in> set L \<Longrightarrow> loadFile (site L) ''typed-react.mdx'' = Inr typed_react_post"
  "''custom.mdx'' \<in> set L \<Longrightarrow> loadFile (site L) ''custom.mdx'' = Inr custom_post"
  "''in-progress.mdx'' \<in> set L \<Longrightarrow> loadFile (site L) ''in-progress.mdx'' = Inr in_progress_post"
  "''odd-date.mdx'' \<in> set L \<Longrightarrow> loadFile (site L) ''odd-date.mdx'' = Inr odd_date_post"
  "''broken.mdx'' \<in> set L \<Longrightarrow> loadFile (site L) ''broken.mdx'' = Inl YAMLException"
  "''drafts.mdx'' \<in> set L \<Longrightarrow> loadFile (site L) ''drafts.mdx'' = Inl EISDIR"
  by (simp_all add: loadFile_def site_eval replace_mdx_def endsWith_def
      hello_world_post_def typed_react_post_def custom_post_def in_progress_post_def
      odd_date_post_def)

lemma sample_dates:
  "newDate_getTime (site L) (getProp hello_world_post ''date'') = Inr (Some 1735689600000)"
  "newDate_getTime (site L) (getProp custom_post ''date'') = Inr (Some 1740787200000)"
  "newDate_getTime (site L) (getProp typed_react_post ''date'') = Inr (Some 1744675200000)"
  "newDate_getTime (site L) (getProp in_progress_post ''date'') = Inr None"
  "newDate_getTime (site L) (getProp odd_date_post ''date'') = Inl TypeError"
  by (simp_all add: newDate_getTime_def getProp_def blogPost_def site_def deployment_def
      sample_Date_parse_def
      hello_world_post_def typed_react_post_def custom_post_def in_progress_post_def
      odd_date_post_def
      hello_world_data_def typed_react_data_def custom_data_def in_progress_data_def
      odd_date_data_def)

lemmas sort_eval = SortCompare_def byDate_def minus_js_def sample_dates




text \<open>On the sample files in the syntax of the model, the table agrees with the model.\<close>

lemma front_matter_samples:
  "front_matter hello_world_mdx = Some (hello_world_data, ''word word word'')"
  "front_matter in_progress_mdx = Some (in_progress_data, ''Not dated yet.'')"
  "front_matter x_mdx = Some (x_data, ''Not a blog post.'')"
  by (simp_all add: front_matter_def hello_world_mdx_def in_progress_mdx_def x_mdx_def
      header_line_def header_key_def key_char_def lower_case_def header_value_def string_value_def
      printable_def object_of_def hello_world_data_def in_progress_data_def x_data_def)

section \<open>The claims\<close>

subsection \<open>C1: order of the listing\<close>

text \<open>
  C1 as stated fails: the listing is not in descending order of date for every content
  directory. With the
  three files \<^verbatim>\<open>hello-world.mdx\<close> (1 January 2025), \<^verbatim>\<open>in-progress.mdx\<close> (no date) and
  \<^verbatim>\<open>typed-react.mdx\<close> (15 April 2025) the comparator returns NaN whenever the undated post
  is one of its arguments, the sort leaves the three posts as they were listed, and the
  post of January stands before the post of April. In whatever order a sort leaves them,
  the undated post is next to a dated one, and \<^verbatim>\<open>>=\<close> is false of that pair.
\<close>

theorem getBlogPosts_undated_counterexample:
  "getBlogPosts (site [''hello-world.mdx'', ''in-progress.mdx'', ''typed-react.mdx''])
     = Inr [hello_world_post, in_progress_post, typed_react_post]
   \<and> newDate_getTime (site [''hello-world.mdx'', ''in-progress.mdx'', ''typed-react.mdx''])
        (getProp hello_world_post ''date'') = Inr (Some 1735689600000)
   \<and> newDate_getTime (site [''hello-world.mdx'', ''in-progress.mdx'', ''typed-react.mdx''])
        (getProp in_progress_post ''date'') = Inr None
   \<and> newDate_getTime (site [''hello-world.mdx'', ''in-progress.mdx'', ''typed-react.mdx''])
        (getProp typed_react_post ''date'') = Inr (Some 1744675200000)
   \<and> \<not> date_ge (site [''hello-world.mdx'', ''in-progress.mdx'', ''typed-react.mdx''])
        hello_world_post typed_react_post
   \<and> \<not> descendingByDate (site [''hello-world.mdx'', ''in-progress.mdx'', ''typed-react.mdx''])
        [hello_world_post, in_progress_post, typed_react_post]"
  by (simp add: getBlogPosts_site endsWith_def sample_loads sort_eval date_ge_def)

text \<open>
  C1, amended. Whenever \<^verbatim>\<open>getBlogPosts\<close> returns a list in which every post is dated (the
  time value of its \<^verbatim>\<open>date\<close> is not NaN), the list is in descending order of date: every
  post has a time value at least that of every later post, and so of the next one.
\<close>

theorem getBlogPosts_descending_when_dated:
  assumes "getBlogPosts E = Inr posts"
    and "\<forall>post \<in> set posts. dated E post"
  shows "sorted_wrt (date_ge E) posts \<and> descendingByDate E posts"
proof -
  have "sorted_wrt (date_ge E) posts"
    using getBlogPosts_cases [OF assms(1)]
  proof
    assume "posts = []"
    then show ?thesis by simp
  next
    assume "\<exists>files loaded. fs_readdirSync E (contentDirectory E) = Inr files \<and>
       map_throwing (loadFile E) (filter (\<lambda>file. endsWith file ''.mdx'') files) = Inr loaded \<and>
       Array_sort (byDate E) loaded = Inr posts"
    then obtain loaded where p: "Array_sort (byDate E) loaded = Inr posts" by blast
    with assms(2) have "\<forall>x \<in> set loaded. dated E x"
      by (simp add: set_Array_sort)
    then show ?thesis
      using p by (rule sorted_Array_sort)
  qed
  then show ?thesis
    by (simp add: sorted_wrt_descendingByDate)
qed

theorem getBlogPosts_descending_when_dated_witness:
  "getBlogPosts (site [''custom.mdx'', ''hello-world.mdx'', ''notes.txt'', ''typed-react.mdx''])
     = Inr [typed_react_post, custom_post, hello_world_post]
   \<and> dated (site [''custom.mdx'', ''hello-world.mdx'', ''notes.txt'', ''typed-react.mdx'']) typed_react_post
   \<and> dated (site [''custom.mdx'', ''hello-world.mdx'', ''notes.txt'', ''typed-react.mdx'']) custom_post
   \<and> dated (site [''custom.mdx'', ''hello-world.mdx'', ''notes.txt'', ''typed-react.mdx'']) hello_world_post
   \<and> descendingByDate (site [''custom.mdx'', ''hello-world.mdx'', ''notes.txt'', ''typed-react.mdx''])
        [typed_react_post, custom_post, hello_world_post]"
proof -
  let ?E = "site [''custom.mdx'', ''hello-world.mdx'', ''notes.txt'', ''typed-react.mdx'']"
  have run: "getBlogPosts ?E = Inr [typed_react_post, custom_post, hello_world_post]"
    by (simp add: getBlogPosts_site endsWith_def sample_loads sort_eval)
  have all: "\<forall>post \<in> set [typed_react_post, custom_post, hello_world_post]. dated ?E post"
    by (simp add: dated_def sample_dates)
  show ?thesis
    using getBlogPosts_descending_when_dated [OF run all] run all by simp
qed

subsection \<open>C2: a missing or empty directory\<close>

text \<open>
  C2. If the content directory does not exist, or exists and is empty, \<^verbatim>\<open>getBlogPosts\<close>
  returns the empty list and raises no error.
\<close>

theorem getBlogPosts_missing_or_empty_directory:
  "\<not> fs_existsSync E (contentDirectory E) \<or> fs_readdirSync E (contentDirectory E) = Inr []
     \<Longrightarrow> getBlogPosts E = Inr []"
  by (auto simp: getBlogPosts_def)

theorem getBlogPosts_missing_or_empty_directory_witness:
  "\<not> fs_existsSync site_without_blog (contentDirectory site_without_blog)
   \<and> getBlogPosts site_without_blog = Inr []
   \<and> fs_existsSync (site []) (contentDirectory (site []))
   \<and> fs_readdirSync (site []) (contentDirectory (site [])) = Inr []
   \<and> getBlogPosts (site []) = Inr []"
proof -
  have a: "\<not> fs_existsSync site_without_blog (contentDirectory site_without_blog)"
    by (simp add: contentDirectory_site_without_blog)
      (simp add: site_without_blog_def deployment_def sample_readFileSync_def)
  have b: "fs_existsSync (site []) (contentDirectory (site []))"
    "fs_readdirSync (site []) (contentDirectory (site [])) = Inr []"
    by (simp_all add: contentDirectory_site existsSync_site readdirSync_site)
  show ?thesis
    using getBlogPosts_missing_or_empty_directory [of site_without_blog]
      getBlogPosts_missing_or_empty_directory [of "site []"] a b
    by simp
qed

subsection \<open>C3: one file that fails\<close>

text \<open>
  C3 asks that a file which fails to read or to parse be left out of the listing and the
  posts of all other files be returned. The listing has no \<^verbatim>\<open>try\<close> around the read and the
  parse of a file, so one file that fails ends it with the exception and no post is
  returned. In a directory of three files of which \<^verbatim>\<open>broken.mdx\<close> has a malformed header,
  the two others load, and the listing throws what the parser threw; an entry
  \<^verbatim>\<open>drafts.mdx\<close> that cannot be read does the same. Without the bad file the two posts are
  returned, and \<^verbatim>\<open>getBlogPost\<close>, which has the \<^verbatim>\<open>try\<close>, answers \<^verbatim>\<open>null\<close> for the unreadable
  one.
\<close>

theorem getBlogPosts_bad_file_throws:
  "loadFile (site [''broken.mdx'', ''hello-world.mdx'', ''typed-react.mdx'']) ''hello-world.mdx''
     = Inr hello_world_post
   \<and> loadFile (site [''broken.mdx'', ''hello-world.mdx'', ''typed-react.mdx'']) ''typed-react.mdx''
     = Inr typed_react_post
   \<and> loadFile (site [''broken.mdx'', ''hello-world.mdx'', ''typed-react.mdx'']) ''broken.mdx''
     = Inl YAMLException
   \<and> getBlogPosts (site [''broken.mdx'', ''hello-world.mdx'', ''typed-react.mdx''])
     = Inl YAMLException
   \<and> getBlogPosts (site [''drafts.mdx'', ''hello-world.mdx'']) = Inl EISDIR
   \<and> getBlogPosts (site [''hello-world.mdx'', ''typed-react.mdx''])
     = Inr [typed_react_post, hello_world_post]
   \<and> getBlogPost (site [''drafts.mdx'', ''hello-world.mdx'']) ''drafts'' = None"
  by (simp add: getBlogPosts_site endsWith_def sample_loads sort_eval)
    (simp add: getBlogPost_def getBlogPost_try_def site_eval)

subsection \<open>C4: lookup by slug\<close>

text \<open>
  C4. For every slug, \<^verbatim>\<open>getBlogPost\<close> returns \<^verbatim>\<open>null\<close> when the read of the file fails
  (missing or unreadable) or when the parse of its contents fails, and no exception leaves
  it (the result type has no error); otherwise it returns the post built from the parsed
  header and body.
\<close>

theorem getBlogPost_null_or_post:
  "(fs_readFileSync E (path_join E (contentDirectory E) (slug @ ''.mdx'')) = Inl e
      \<longrightarrow> getBlogPost E slug = None) \<and>
   (fs_readFileSync E (path_join E (contentDirectory E) (slug @ ''.mdx'')) = Inr src
      \<and> matter E src = Inl e' \<longrightarrow> getBlogPost E slug = None) \<and>
   (fs_readFileSync E (path_join E (contentDirectory E) (slug @ ''.mdx'')) = Inr src
      \<and> matter E src = Inr (data, content)
      \<longrightarrow> getBlogPost E slug = Some (blogPost slug data content (readingTime_text E content)))"
  by (simp add: getBlogPost_def getBlogPost_try_def)

theorem getBlogPost_null_or_post_witness:
  "fs_readFileSync (site [''broken.mdx'', ''hello-world.mdx''])
       (path_join (site [''broken.mdx'', ''hello-world.mdx''])
          (contentDirectory (site [''broken.mdx'', ''hello-world.mdx'']))
          (''missing'' @ ''.mdx''))
     = Inl ENOENT
   \<and> getBlogPost (site [''broken.mdx'', ''hello-world.mdx'']) ''missing'' = None
   \<and> fs_readFileSync (site [''broken.mdx'', ''hello-world.mdx''])
         (path_join (site [''broken.mdx'', ''hello-world.mdx''])
            (contentDirectory (site [''broken.mdx'', ''hello-world.mdx'']))
            (''broken'' @ ''.mdx''))
       = Inr broken_mdx
   \<and> matter (site [''broken.mdx'', ''hello-world.mdx'']) broken_mdx = Inl YAMLException
   \<and> getBlogPost (site [''broken.mdx'', ''hello-world.mdx'']) ''broken'' = None
   \<and> fs_readFileSync (site [''broken.mdx'', ''hello-world.mdx''])
         (path_join (site [''broken.mdx'', ''hello-world.mdx''])
            (contentDirectory (site [''broken.mdx'', ''hello-world.mdx'']))
            (''hello-world'' @ ''.mdx''))
       = Inr hello_world_mdx
   \<and> matter (site [''broken.mdx'', ''hello-world.mdx'']) hello_world_mdx
       = Inr (hello_world_data, ''word word word'')
   \<and> getBlogPost (site [''broken.mdx'', ''hello-world.mdx'']) ''hello-world''
       = Some hello_world_post"
proof -
  let ?E = "site [''broken.mdx'', ''hello-world.mdx'']"
  show ?thesis
    using getBlogPost_null_or_post [of ?E "''missing''" ENOENT]
      getBlogPost_null_or_post [of ?E "''broken''" _ broken_mdx YAMLException]
      getBlogPost_null_or_post [of ?E "''hello-world''" _ hello_world_mdx _
        hello_world_data "''word word word''"]
    by (simp add: site_eval hello_world_post_def)
qed

subsection \<open>C5: the slug of a listed post\<close>

text \<open>
  C5 as stated fails: the slug of a post is not the file name without its extension for
  every valid file:
  the header of \<^verbatim>\<open>custom.mdx\<close> has a key \<^verbatim>\<open>slug\<close>, and the post of that file carries the
  header's value.
\<close>

theorem slug_overridden_counterexample:
  "endsWith ''custom.mdx'' ''.mdx''
   \<and> replace_mdx ''custom.mdx'' = ''custom''
   \<and> getBlogPosts (site [''custom.mdx'']) = Inr [custom_post]
   \<and> getProp custom_post ''slug'' = JStr ''pretty-url''
   \<and> getProp custom_post ''slug'' \<noteq> JStr ''custom''"
  by (simp add: getBlogPosts_site sample_loads)
    (simp add: endsWith_def replace_mdx_def custom_post_def blogPost_def custom_data_def getProp_def)

text \<open>
  C5, amended. For every content file with the recognised extension that reads and parses
  and whose header has no key \<^verbatim>\<open>slug\<close>, the post built from it (which is in the result of
  the listing when the file is listed) has as its slug the file name without the
  extension.
\<close>

theorem slug_is_file_name_without_extension:
  assumes "endsWith file ''.mdx''"
    and "fs_readFileSync E (path_join E (contentDirectory E) file) = Inr src"
    and "matter E src = Inr (data, content)"
    and "data ''slug'' = None"
  shows "\<exists>post slug. file = slug @ ''.mdx'' \<and> loadFile E file = Inr post
           \<and> (\<forall>posts. getBlogPosts E = Inr posts \<and> listed E file \<longrightarrow> post \<in> set posts)
           \<and> post ''slug'' = Some (JStr slug)"
proof -
  define slug where "slug = take (length file - 4) file"
  have name: "file = slug @ ''.mdx''"
    unfolding slug_def using assms(1) by (rule endsWith_mdx_split)
  let ?post = "blogPost slug data content (readingTime_text E content)"
  have "loadFile E file = Inr ?post"
    and "\<forall>posts. getBlogPosts E = Inr posts \<and> listed E file \<longrightarrow> ?post \<in> set posts"
    using loaded_post(1,3) [of E slug src data content] assms(2,3) name by simp_all
  moreover have "?post ''slug'' = Some (JStr slug)"
    using assms(4) by (rule blogPost_derived)
  ultimately show ?thesis
    using name by blast
qed

theorem slug_is_file_name_without_extension_witness:
  "endsWith ''hello-world.mdx'' ''.mdx''
   \<and> fs_readFileSync (site [''hello-world.mdx''])
        (path_join (site [''hello-world.mdx'']) (contentDirectory (site [''hello-world.mdx'']))
           ''hello-world.mdx'')
       = Inr hello_world_mdx
   \<and> matter (site [''hello-world.mdx'']) hello_world_mdx = Inr (hello_world_data, ''word word word'')
   \<and> hello_world_data ''slug'' = None
   \<and> loadFile (site [''hello-world.mdx'']) ''hello-world.mdx'' = Inr hello_world_post
   \<and> listed (site [''hello-world.mdx'']) ''hello-world.mdx''
   \<and> getBlogPosts (site [''hello-world.mdx'']) = Inr [hello_world_post]
   \<and> hello_world_post ''slug'' = Some (JStr ''hello-world'')"
proof -
  let ?E = "site [''hello-world.mdx'']"
  have h: "endsWith ''hello-world.mdx'' ''.mdx''"
    "fs_readFileSync ?E (path_join ?E (contentDirectory ?E) ''hello-world.mdx'') = Inr hello_world_mdx"
    "matter ?E hello_world_mdx = Inr (hello_world_data, ''word word word'')"
    "hello_world_data ''slug'' = None"
    by (simp_all add: endsWith_def site_eval hello_world_data_def)
  have run: "getBlogPosts ?E = Inr [hello_world_post]" "listed ?E ''hello-world.mdx''"
    by (simp_all add: getBlogPosts_site endsWith_def sample_loads listed_site)
  obtain post slug where post: "''hello-world.mdx'' = slug @ ''.mdx''"
    "loadFile ?E ''hello-world.mdx'' = Inr post" "post ''slug'' = Some (JStr slug)"
    using slug_is_file_name_without_extension [OF h] by blast
  from post(1) have "slug = ''hello-world''"
    by simp
  moreover from post(2) have "post = hello_world_post"
    by (simp add: sample_loads)
  ultimately show ?thesis
    using post h run by simp
qed

subsection \<open>C6: defaults of excerpt and tags\<close>

text \<open>
  C6. For every content file that reads and parses, the post built from it, by the listing
  and by the lookup alike, has the empty string as its excerpt when the header has no key
  \<^verbatim>\<open>excerpt\<close>, and the empty array as its tags when the header has no key \<^verbatim>\<open>tags\<close>.
\<close>

theorem missing_excerpt_and_tags_default:
  assumes "fs_readFileSync E (path_join E (contentDirectory E) (slug @ ''.mdx'')) = Inr src"
    and "matter E src = Inr (data, content)"
  shows "\<exists>post. loadFile E (slug @ ''.mdx'') = Inr post \<and> getBlogPost E slug = Some post
           \<and> (\<forall>posts. getBlogPosts E = Inr posts \<and> listed E (slug @ ''.mdx'')
                 \<longrightarrow> post \<in> set posts)
           \<and> (data ''excerpt'' = None \<longrightarrow> post ''excerpt'' = Some (JStr []))
           \<and> (data ''tags'' = None \<longrightarrow> post ''tags'' = Some (JArr []))"
  using loaded_post [OF assms] by (simp add: blogPost_derived)

theorem missing_excerpt_and_tags_default_witness:
  "fs_readFileSync (site [''hello-world.mdx''])
        (path_join (site [''hello-world.mdx'']) (contentDirectory (site [''hello-world.mdx'']))
           (''hello-world'' @ ''.mdx''))
     = Inr hello_world_mdx
   \<and> matter (site [''hello-world.mdx'']) hello_world_mdx = Inr (hello_world_data, ''word word word'')
   \<and> hello_world_data ''excerpt'' = None
   \<and> hello_world_data ''tags'' = None
   \<and> getBlogPosts (site [''hello-world.mdx'']) = Inr [hello_world_post]
   \<and> getBlogPost (site [''hello-world.mdx'']) ''hello-world'' = Some hello_world_post
   \<and> hello_world_post ''excerpt'' = Some (JStr [])
   \<and> hello_world_post ''tags'' = Some (JArr [])"
proof -
  let ?E = "site [''hello-world.mdx'']"
  have h: "fs_readFileSync ?E (path_join ?E (contentDirectory ?E) (''hello-world'' @ ''.mdx''))
     = Inr hello_world_mdx"
    "matter ?E hello_world_mdx = Inr (hello_world_data, ''word word word'')"
    by (simp_all add: site_eval)
  have d: "hello_world_data ''excerpt'' = None" "hello_world_data ''tags'' = None"
    by (simp_all add: hello_world_data_def)
  have run: "getBlogPosts ?E = Inr [hello_world_post]"
    by (simp add: getBlogPosts_site endsWith_def sample_loads)
  obtain post where post: "loadFile ?E (''hello-world'' @ ''.mdx'') = Inr post"
    "getBlogPost ?E ''hello-world'' = Some post"
    "post ''excerpt'' = Some (JStr [])" "post ''tags'' = Some (JArr [])"
    using missing_excerpt_and_tags_default [OF h] d by blast
  from post(1) have "post = hello_world_post"
    by (simp add: sample_loads)
  with post h d run show ?thesis
    by simp
qed

subsection \<open>C7: round trip of a written file\<close>



subsection \<open>C8: one post for each file with the extension\<close>

text \<open>
  C8 as stated fails: the listing does not return one post for each file with the
  extension in every content directory. In the directory of C3, of which \<^verbatim>\<open>broken.mdx\<close> has
  a malformed header, it throws and returns no post at all. In a directory of two files
  that both read and parse, of which \<^verbatim>\<open>odd-date.mdx\<close> has a date that does not convert to a
  primitive, the comparator of the sort throws a TypeError, and again no post is returned.
\<close>

theorem getBlogPosts_no_post_per_file_counterexample:
  "filter (\<lambda>file. endsWith file ''.mdx'') [''broken.mdx'', ''hello-world.mdx'', ''typed-react.mdx'']
     = [''broken.mdx'', ''hello-world.mdx'', ''typed-react.mdx'']
   \<and> getBlogPosts (site [''broken.mdx'', ''hello-world.mdx'', ''typed-react.mdx''])
       = Inl YAMLException
   \<and> filter (\<lambda>file. endsWith file ''.mdx'') [''hello-world.mdx'', ''odd-date.mdx'']
       = [''hello-world.mdx'', ''odd-date.mdx'']
   \<and> loadFile (site [''hello-world.mdx'', ''odd-date.mdx'']) ''hello-world.mdx''
       = Inr hello_world_post
   \<and> loadFile (site [''hello-world.mdx'', ''odd-date.mdx'']) ''odd-date.mdx''
       = Inr odd_date_post
   \<and> toPrimitive_throws (getProp odd_date_post ''date'')
   \<and> getBlogPosts (site [''hello-world.mdx'', ''odd-date.mdx'']) = Inl TypeError"
  by (simp add: getBlogPosts_site endsWith_def sample_loads sort_eval)
    (simp add: odd_date_post_def odd_date_data_def blogPost_def getProp_def)

text \<open>
  C8, amended. When the content directory exists and is listed, every listed file whose
  name ends in \<^verbatim>\<open>.mdx\<close> reads and parses, and there are fewer than two such files or the
  date of each of their posts converts to a primitive, \<^verbatim>\<open>getBlogPosts\<close> returns a list that
  holds, in some order, exactly one post for each such file, the post built from that
  file; the files with another extension have no post in it.
\<close>

theorem getBlogPosts_one_post_per_mdx_file:
  assumes "fs_existsSync E (contentDirectory E)"
    and "fs_readdirSync E (contentDirectory E) = Inr files"
    and "\<forall>file \<in> set files. endsWith file ''.mdx'' \<longrightarrow> (\<exists>post. loadFile E file = Inr post)"
    and "length (filter (\<lambda>file. endsWith file ''.mdx'') files) \<le> 1
         \<or> (\<forall>file \<in> set files. \<forall>post. endsWith file ''.mdx'' \<and> loadFile E file = Inr post
                \<longrightarrow> \<not> toPrimitive_throws (getProp post ''date''))"
  shows "\<exists>posts loaded. getBlogPosts E = Inr posts
           \<and> list_all2 (\<lambda>file post. loadFile E file = Inr post)
                (filter (\<lambda>file. endsWith file ''.mdx'') files) loaded
           \<and> mset posts = mset loaded"
proof -
  let ?mdx = "filter (\<lambda>file. endsWith file ''.mdx'') files"
  have "\<forall>file \<in> set ?mdx. \<exists>post. loadFile E file = Inr post"
    using assms(3) by simp
  then obtain loaded where loaded: "map_throwing (loadFile E) ?mdx = Inr loaded"
    "list_all2 (\<lambda>file post. loadFile E file = Inr post) ?mdx loaded"
    using map_throwing_total by blast
  have "\<exists>posts. Array_sort (byDate E) loaded = Inr posts"
    using assms(4)
  proof
    assume "length ?mdx \<le> 1"
    then have "length loaded \<le> 1"
      using loaded(2) by (simp add: list_all2_lengthD)
    then show ?thesis
      by (simp add: Array_sort_short)
  next
    assume convert: "\<forall>file \<in> set files. \<forall>post. endsWith file ''.mdx'' \<and> loadFile E file = Inr post
                \<longrightarrow> \<not> toPrimitive_throws (getProp post ''date'')"
    have "\<not> toPrimitive_throws (getProp post ''date'')" if "post \<in> set loaded" for post
    proof -
      from loaded(2) that obtain name where "name \<in> set ?mdx" "loadFile E name = Inr post"
        by (blast dest: list_all2_right_member)
      with convert show ?thesis
        by auto
    qed
    then show ?thesis
      by (intro Array_sort_returns) simp
  qed
  then obtain posts where posts: "Array_sort (byDate E) loaded = Inr posts"
    by blast
  then have "mset posts = mset loaded"
    by (rule mset_Array_sort)
  with loaded posts assms(1,2) show ?thesis
    by (intro exI [of _ posts] exI [of _ loaded]) (simp add: getBlogPosts_def)
qed

theorem getBlogPosts_one_post_per_mdx_file_witness:
  "fs_existsSync (site [''hello-world.mdx'', ''notes.txt'', ''typed-react.mdx''])
     (contentDirectory (site [''hello-world.mdx'', ''notes.txt'', ''typed-react.mdx'']))
   \<and> fs_readdirSync (site [''hello-world.mdx'', ''notes.txt'', ''typed-react.mdx''])
       (contentDirectory (site [''hello-world.mdx'', ''notes.txt'', ''typed-react.mdx'']))
       = Inr [''hello-world.mdx'', ''notes.txt'', ''typed-react.mdx'']
   \<and> filter (\<lambda>file. endsWith file ''.mdx'') [''hello-world.mdx'', ''notes.txt'', ''typed-react.mdx'']
       = [''hello-world.mdx'', ''typed-react.mdx'']
   \<and> loadFile (site [''hello-world.mdx'', ''notes.txt'', ''typed-react.mdx'']) ''hello-world.mdx''
       = Inr hello_world_post
   \<and> loadFile (site [''hello-world.mdx'', ''notes.txt'', ''typed-react.mdx'']) ''typed-react.mdx''
       = Inr typed_react_post
   \<and> \<not> toPrimitive_throws (getProp hello_world_post ''date'')
   \<and> \<not> toPrimitive_throws (getProp typed_react_post ''date'')
   \<and> getBlogPosts (site [''hello-world.mdx'', ''notes.txt'', ''typed-react.mdx''])
       = Inr [typed_react_post, hello_world_post]
   \<and> mset [typed_react_post, hello_world_post] = mset [hello_world_post, typed_react_post]"
proof -
  let ?L = "[''hello-world.mdx'', ''notes.txt'', ''typed-react.mdx'']"
  have a: "fs_existsSync (site ?L) (contentDirectory (site ?L))"
    and b: "fs_readdirSync (site ?L) (contentDirectory (site ?L)) = Inr ?L"
    by (simp_all add: contentDirectory_site existsSync_site readdirSync_site)
  have c: "\<forall>file \<in> set ?L. endsWith file ''.mdx'' \<longrightarrow> (\<exists>post. loadFile (site ?L) file = Inr post)"
    by (simp add: endsWith_def sample_loads)
  have converts: "\<not> toPrimitive_throws (getProp hello_world_post ''date'')"
    "\<not> toPrimitive_throws (getProp typed_react_post ''date'')"
    by (simp_all add: hello_world_post_def hello_world_data_def typed_react_post_def
        typed_react_data_def blogPost_def getProp_def)
  have d: "length (filter (\<lambda>file. endsWith file ''.mdx'') ?L) \<le> 1
         \<or> (\<forall>file \<in> set ?L. \<forall>post. endsWith file ''.mdx'' \<and> loadFile (site ?L) file = Inr post
                \<longrightarrow> \<not> toPrimitive_throws (getProp post ''date''))"
    using converts by (auto simp: endsWith_def sample_loads)
  have run: "getBlogPosts (site ?L) = Inr [typed_react_post, hello_world_post]"
    by (simp add: getBlogPosts_site endsWith_def sample_loads sort_eval)
  show ?thesis
    using getBlogPosts_one_post_per_mdx_file [OF a b c d] a b run converts
    by (simp add: endsWith_def sample_loads)
qed

subsection \<open>C9: header keys replace the derived fields\<close>

text \<open>
  C9. For every content file that reads and parses and every key of its header, whether
  or not the key is the name of a derived or defaulted field, the post built from the
  file, by the listing and by the lookup alike, carries the header's value under that key:
  a header key \<^verbatim>\<open>slug\<close> replaces the slug, and a null \<^verbatim>\<open>excerpt\<close> stays null.
\<close>

theorem header_overrides_post_fields:
  assumes "fs_readFileSync E (path_join E (contentDirectory E) (slug @ ''.mdx'')) = Inr src"
    and "matter E src = Inr (data, content)"
    and "data k = Some v"
  shows "\<exists>post. loadFile E (slug @ ''.mdx'') = Inr post \<and> getBlogPost E slug = Some post
           \<and> (\<forall>posts. getBlogPosts E = Inr posts \<and> listed E (slug @ ''.mdx'')
                 \<longrightarrow> post \<in> set posts)
           \<and> post k = Some v"
  using loaded_post [OF assms(1,2)] assms(3) by (simp add: blogPost_header)

theorem header_overrides_post_fields_witness:
  "fs_readFileSync (site [''custom.mdx''])
        (path_join (site [''custom.mdx'']) (contentDirectory (site [''custom.mdx'']))
           (''custom'' @ ''.mdx''))
     = Inr custom_mdx
   \<and> matter (site [''custom.mdx'']) custom_mdx = Inr (custom_data, ''A post with its own slug.'')
   \<and> custom_data ''slug'' = Some (JStr ''pretty-url'')
   \<and> custom_data ''excerpt'' = Some JNull
   \<and> getBlogPosts (site [''custom.mdx'']) = Inr [custom_post]
   \<and> getBlogPost (site [''custom.mdx'']) ''custom'' = Some custom_post
   \<and> custom_post ''slug'' = Some (JStr ''pretty-url'')
   \<and> custom_post ''excerpt'' = Some JNull"
proof -
  let ?E = "site [''custom.mdx'']"
  have h: "fs_readFileSync ?E (path_join ?E (contentDirectory ?E) (''custom'' @ ''.mdx''))
     = Inr custom_mdx"
    "matter ?E custom_mdx = Inr (custom_data, ''A post with its own slug.'')"
    by (simp_all add: site_eval)
  have d: "custom_data ''slug'' = Some (JStr ''pretty-url'')" "custom_data ''excerpt'' = Some JNull"
    by (simp_all add: custom_data_def)
  have run: "getBlogPosts ?E = Inr [custom_post]"
    by (simp add: getBlogPosts_site endsWith_def sample_loads)
  obtain p where p: "loadFile ?E (''custom'' @ ''.mdx'') = Inr p"
    "getBlogPost ?E ''custom'' = Some p" "p ''slug'' = Some (JStr ''pretty-url'')"
    using header_overrides_post_fields [OF h d(1)] by blast
  obtain q where q: "loadFile ?E (''custom'' @ ''.mdx'') = Inr q"
    "q ''excerpt'' = Some JNull"
    using header_overrides_post_fields [OF h d(2)] by blast
  from p(1) q(1) have "p = custom_post" "q = custom_post"
    by (simp_all add: sample_loads)
  with p q h d run show ?thesis
    by simp
qed

subsection \<open>C10: the path of a lookup\<close>

text \<open>
  C10. For every slug, \<^verbatim>\<open>getBlogPost\<close> reads exactly the file at the path that joins the
  content directory and the slug followed by \<^verbatim>\<open>.mdx\<close>: its result is the same on any other
  file system that has the same file at that path, and whenever that file reads and
  parses the post is returned, wherever the path leads. The slug \<^verbatim>\<open>../x\<close> leads to the
  file \<^verbatim>\<open>/app/src/content/x.mdx\<close> of the sample site, which is not inside the content
  directory, and the post built from that file is returned.
\<close>

theorem getBlogPost_reads_joined_path_unchecked:
  "(\<forall>f g h.
      f (path_join E (contentDirectory E) (slug @ ''.mdx''))
        = fs_readFileSync E (path_join E (contentDirectory E) (slug @ ''.mdx''))
      \<longrightarrow> getBlogPost (E\<lparr>fs_existsSync := g, fs_readdirSync := h, fs_readFileSync := f\<rparr>) slug
            = getBlogPost E slug)
   \<and> (fs_readFileSync E (path_join E (contentDirectory E) (slug @ ''.mdx'')) = Inr src
        \<and> matter E src = Inr (data, content)
      \<longrightarrow> getBlogPost E slug = Some (blogPost slug data content (readingTime_text E content)))
   \<and> (path_join (site []) (contentDirectory (site [])) (''../x'' @ ''.mdx'') = ''/app/src/content/x.mdx''
        \<and> \<not> inside (contentDirectory (site [])) ''/app/src/content/x.mdx''
        \<and> fs_readFileSync (site []) ''/app/src/content/x.mdx'' = Inr x_mdx
        \<and> getBlogPost (site []) ''../x''
            = Some (blogPost ''../x'' x_data ''Not a blog post.'' ''1 min read''))"
proof -
  have "getBlogPost (E\<lparr>fs_existsSync := g, fs_readdirSync := h, fs_readFileSync := f\<rparr>) slug
          = getBlogPost E slug"
    if "f (path_join E (contentDirectory E) (slug @ ''.mdx''))
          = fs_readFileSync E (path_join E (contentDirectory E) (slug @ ''.mdx''))" for f g h
    using that
    by (simp add: getBlogPost_def getBlogPost_try_def contentDirectory_def cong: sum.case_cong)
  moreover have "getBlogPost E slug = Some (blogPost slug data content (readingTime_text E content))"
    if "fs_readFileSync E (path_join E (contentDirectory E) (slug @ ''.mdx'')) = Inr src"
      "matter E src = Inr (data, content)"
    using that by (rule loaded_post(2))
  moreover have "path_join (site []) (contentDirectory (site [])) (''../x'' @ ''.mdx'')
      = ''/app/src/content/x.mdx''"
    by (simp add: site_eval)
  moreover have "\<not> inside (contentDirectory (site [])) ''/app/src/content/x.mdx''"
    by (simp add: inside_def site_eval)
  moreover have "fs_readFileSync (site []) ''/app/src/content/x.mdx'' = Inr x_mdx"
    by (simp add: site_eval)
  moreover have "getBlogPost (site []) ''../x''
      = Some (blogPost ''../x'' x_data ''Not a blog post.'' ''1 min read'')"
    by (simp add: getBlogPost_def getBlogPost_try_def site_eval)
  ultimately show ?thesis
    by blast
qed

theorem getBlogPost_reads_joined_path_unchecked_witness:
  "fs_readFileSync (site [''hello-world.mdx''])
       (path_join (site [''hello-world.mdx'']) (contentDirectory (site [''hello-world.mdx'']))
          (''hello-world'' @ ''.mdx''))
     = Inr hello_world_mdx
   \<and> matter (site [''hello-world.mdx'']) hello_world_mdx = Inr (hello_world_data, ''word word word'')
   \<and> getBlogPost (site [''hello-world.mdx'']) ''hello-world'' = Some hello_world_post
   \<and> getBlogPost
        ((site [''hello-world.mdx''])\<lparr>fs_existsSync := (\<lambda>p. True), fs_readdirSync := (\<lambda>p. Inl EACCES),
           fs_readFileSync := (\<lambda>p. if p = ''/app/src/content/blog/hello-world.mdx''
                                     then Inr hello_world_mdx else Inl EACCES)\<rparr>)
        ''hello-world''
       = getBlogPost (site [''hello-world.mdx'']) ''hello-world''"
proof -
  note claim = getBlogPost_reads_joined_path_unchecked [of "site [''hello-world.mdx'']" "''hello-world''"
      hello_world_mdx hello_world_data "''word word word''"]
  have h: "fs_readFileSync (site [''hello-world.mdx''])
               (path_join (site [''hello-world.mdx'']) (contentDirectory (site [''hello-world.mdx'']))
                  (''hello-world'' @ ''.mdx''))
     = Inr hello_world_mdx"
    "matter (site [''hello-world.mdx'']) hello_world_mdx = Inr (hello_world_data, ''word word word'')"
    by (simp_all add: site_eval)
  have "getBlogPost (site [''hello-world.mdx'']) ''hello-world'' = Some hello_world_post"
    using claim h by (simp add: hello_world_post_def readingTime_site)
  moreover have "getBlogPost
        ((site [''hello-world.mdx''])\<lparr>fs_existsSync := (\<lambda>p. True), fs_readdirSync := (\<lambda>p. Inl EACCES),
           fs_readFileSync := (\<lambda>p. if p = ''/app/src/content/blog/hello-world.mdx''
                                     then Inr hello_world_mdx else Inl EACCES)\<rparr>)
        ''hello-world''
       = getBlogPost (site [''hello-world.mdx'']) ''hello-world''"
    by (rule claim [THEN conjunct1, rule_format]) (simp add: site_eval)
  ultimately show ?thesis
    using h by simp
qed

end
